theory Spec2Isabelle
  imports Complex_Main "HOL-Library.Word"
begin

unbundle bit_operations_syntax

section \<open>The constants of lime.h\<close>

text \<open>
  A C \<open>int\<close> is a 32-bit word; \<open>sint\<close> reads it as two's complement. Every shift
  in the header is \<open>1 << b\<close> with \<open>b \<le> 8\<close>, so no shift overflows.
\<close>

type_synonym c_int = "32 word"

definition max_phot :: nat where "max_phot = 10000"
definition ininphot :: nat where "ininphot = 9"
definition minpop :: real where "minpop = 1 / 10 ^ 6"
definition MAXITER :: nat where "MAXITER = 50"
definition goal :: nat where "goal = 50"
definition NUM_GRID_STAGES :: nat where "NUM_GRID_STAGES = 4"

subsection \<open>Bit locations of the grid data-stage mask\<close>

definition DS_bit_x :: nat where "DS_bit_x = 0"
definition DS_bit_neighbours :: nat where "DS_bit_neighbours = 1"
definition DS_bit_velocity :: nat where "DS_bit_velocity = 2"
definition DS_bit_density :: nat where "DS_bit_density = 3"
definition DS_bit_abundance :: nat where "DS_bit_abundance = 4"
definition DS_bit_turb_doppler :: nat where "DS_bit_turb_doppler = 5"
definition DS_bit_temperatures :: nat where "DS_bit_temperatures = 6"
definition DS_bit_ACOEFF :: nat where "DS_bit_ACOEFF = 7"
definition DS_bit_populations :: nat where "DS_bit_populations = 8"

text \<open>The nine locations in the order of the header.\<close>

definition DS_bits :: "nat list" where
  "DS_bits = [DS_bit_x, DS_bit_neighbours, DS_bit_velocity, DS_bit_density,
     DS_bit_abundance, DS_bit_turb_doppler, DS_bit_temperatures, DS_bit_ACOEFF,
     DS_bit_populations]"

subsection \<open>The masks\<close>

text \<open>
  The macros are written without outer parentheses. Each expands to a chain of
  \<open>|\<close> over parenthesised shifts, and a macro is only ever nested inside another
  chain of \<open>|\<close>, so the expansion of every mask below is the bitwise or of its parts.
\<close>

definition DS_mask_x :: c_int where
  "DS_mask_x = push_bit DS_bit_x 1"
definition DS_mask_neighbours :: c_int where
  "DS_mask_neighbours = push_bit DS_bit_neighbours 1 OR DS_mask_x"
definition DS_mask_velocity :: c_int where
  "DS_mask_velocity = push_bit DS_bit_velocity 1 OR DS_mask_x"
definition DS_mask_density :: c_int where
  "DS_mask_density = push_bit DS_bit_density 1 OR DS_mask_x"
definition DS_mask_abundance :: c_int where
  "DS_mask_abundance = push_bit DS_bit_abundance 1 OR DS_mask_x"
definition DS_mask_turb_doppler :: c_int where
  "DS_mask_turb_doppler = push_bit DS_bit_turb_doppler 1 OR DS_mask_x"
definition DS_mask_temperatures :: c_int where
  "DS_mask_temperatures = push_bit DS_bit_temperatures 1 OR DS_mask_x"
definition DS_mask_ACOEFF :: c_int where
  "DS_mask_ACOEFF = push_bit DS_bit_ACOEFF 1 OR DS_mask_neighbours OR DS_mask_velocity"

definition DS_mask_1 :: c_int where
  "DS_mask_1 = DS_mask_x"
definition DS_mask_2 :: c_int where
  "DS_mask_2 = DS_mask_neighbours"
definition DS_mask_3 :: c_int where
  "DS_mask_3 = DS_mask_2 OR DS_mask_density OR DS_mask_abundance OR DS_mask_turb_doppler
     OR DS_mask_temperatures OR DS_mask_ACOEFF"
definition DS_mask_populations :: c_int where
  "DS_mask_populations = push_bit DS_bit_populations 1 OR DS_mask_3"
definition DS_mask_4 :: c_int where
  "DS_mask_4 = DS_mask_populations"
definition DS_mask_all :: c_int where
  "DS_mask_all = DS_mask_populations"

text \<open>
  The four stage masks by stage number, 1 to \<open>NUM_GRID_STAGES\<close>. The header names
  them one by one; this table only indexes them, and has no entry outside 1..4.
\<close>

definition DS_mask_stage :: "nat \<Rightarrow> c_int option" where
  "DS_mask_stage k =
     (if k = 1 then Some DS_mask_1
      else if k = 2 then Some DS_mask_2
      else if k = 3 then Some DS_mask_3
      else if k = 4 then Some DS_mask_4
      else None)"

text \<open>
  Modelled from the spec: \<open>allBitsSet\<close> is declared in lime.h
  (\<open>_Bool allBitsSet(const int flags, const int mask)\<close>) and its body is not part of
  the header. The specification has a reader verify "that the requested downstream
  stage's required bits are all set": the result is true exactly when every bit of
  the second argument (\<open>mask\<close> in the header) is set in \<open>flags\<close>.
\<close>

definition allBitsSet :: "c_int \<Rightarrow> c_int \<Rightarrow> bool" where
  "allBitsSet flags msk = (flags AND msk = msk)"

section \<open>The structs of lime.h\<close>

subsection \<open>The configuration record\<close>

text \<open>
  A C array \<open>T a[NUM_GRID_STAGES]\<close> holds exactly \<open>NUM_GRID_STAGES\<close> elements, by its
  type. The model keeps that in the type: a \<open>stage_array\<close> is a list of that length.
  Reading or writing at an index outside the array is undefined in C; \<open>stage_get\<close>
  answers \<open>None\<close> there and \<open>stage_set\<close> leaves the array as it is.
\<close>

typedef 'a stage_array = "{xs :: 'a list. length xs = NUM_GRID_STAGES}"
  morphisms stage_list Abs_stage_array
proof -
  fix v :: 'a
  have "replicate NUM_GRID_STAGES v \<in> {xs. length xs = NUM_GRID_STAGES}" by simp
  then show ?thesis ..
qed

setup_lifting type_definition_stage_array

lift_definition stage_get :: "'a stage_array \<Rightarrow> nat \<Rightarrow> 'a option"
  is "\<lambda>xs i. if i < NUM_GRID_STAGES then Some (xs ! i) else None" .

lift_definition stage_set :: "'a stage_array \<Rightarrow> nat \<Rightarrow> 'a \<Rightarrow> 'a stage_array"
  is "\<lambda>xs i v. xs[i := v]" by simp

lift_definition stage_fill :: "'a \<Rightarrow> 'a stage_array"
  is "\<lambda>v. replicate NUM_GRID_STAGES v" by simp

text \<open>
  \<open>inputPars\<close>, field by field: \<open>double\<close> is \<open>real\<close>, \<open>int\<close> is \<open>c_int\<close>,
  \<open>char *\<close> is a string or \<open>None\<close> for the null pointer, \<open>char **\<close> a list of
  strings, and the two arrays are \<open>stage_array\<close>s.
\<close>

record inputPars =
  radius :: real
  radiusSqu :: real
  minScale :: real
  minScaleSqu :: real
  tcmb :: real
  taylorCutoff :: real
  ncell :: c_int
  sinkPoints :: c_int
  pIntensity :: c_int
  nImages :: c_int
  nSpecies :: c_int
  blend :: c_int
  outputfile :: "string option"
  binoutputfile :: "string option"
  inputfile :: "string option"
  gridfile :: "string option"
  pregrid :: "string option"
  restart :: "string option"
  dust :: "string option"
  sampling :: c_int
  collPart :: c_int
  lte_only :: c_int
  init_lte :: c_int
  antialias :: c_int
  polarization :: c_int
  doPregrid :: c_int
  nThreads :: c_int
  moldatfile :: "string list"
  writeGridAtStage :: "bool stage_array"
  gridInFile :: "string option"
  gridOutFiles :: "string option stage_array"
  dataStageI :: c_int
  nSolveIters :: c_int

text \<open>
  A configuration to run the record on: every flag off, no file named, one thread.
\<close>

definition examplePars :: inputPars where
  "examplePars = \<lparr>radius = 1, radiusSqu = 1, minScale = 0, minScaleSqu = 0, tcmb = 0,
     taylorCutoff = 0, ncell = 0, sinkPoints = 0, pIntensity = 0, nImages = 0,
     nSpecies = 0, blend = 0, outputfile = None, binoutputfile = None, inputfile = None,
     gridfile = None, pregrid = None, restart = None, dust = None, sampling = 0,
     collPart = 0, lte_only = 0, init_lte = 0, antialias = 0, polarization = 0,
     doPregrid = 0, nThreads = 1, moldatfile = [], writeGridAtStage = stage_fill False,
     gridInFile = None, gridOutFiles = stage_fill None, dataStageI = 0, nSolveIters = 0\<rparr>"

subsection \<open>Grid vertices\<close>

text \<open>
  Of \<open>struct populations\<close> and \<open>struct grid\<close> the model keeps the fields the solver
  and its controller read or write: the level populations of one species, and the
  sink flag, photon budget and convergence counter of a vertex. The geometry
  (\<open>x\<close>, \<open>vel\<close>, \<open>dir\<close>, \<open>ds\<close>, \<open>neigh\<close>, \<open>a0\<close> to \<open>a4\<close>) and the physical fields
  play no part in what follows.
\<close>

record populations =
  pops :: "real list"

record grid =
  sink :: c_int
  nphot :: c_int
  conv :: c_int
  mol :: "populations list"

section \<open>The statistical-equilibrium solver: clipping and renormalisation\<close>

text \<open>
  Modelled from the spec: \<open>stateq\<close> is declared in lime.h and its body is not part of
  the header. Section 4.4 of the specification: "The resulting populations are clipped
  to [minpop, 1] and renormalised", and section 3: "any component below a minimum
  floor is clamped to that floor before division". \<open>clipPop\<close> is the clipping of one
  component. Populations are \<open>double\<close> in the code and real numbers here: rounding is
  not modelled.
\<close>

definition clipPop :: "real \<Rightarrow> real" where
  "clipPop p = min 1 (max minpop p)"

text \<open>
  Modelled from the spec: the last step of \<open>stateq\<close> (body missing, see above) for one
  vertex and one species. \<open>newpop\<close> is the solution of the rate equations; every
  component is clipped, then each is divided by the sum of the clipped components.
\<close>

definition stateq_renorm :: "real list \<Rightarrow> real list" where
  "stateq_renorm newpop =
     (let clipped = map clipPop newpop; total = sum_list clipped
      in map (\<lambda>p. p / total) clipped)"






section \<open>The iteration controller\<close>

text \<open>
  Modelled from the spec: the two ways the loop of \<open>levelPops\<close> (body missing from
  the header) stops. Section 5: "the only exit conditions are full convergence or
  MAXITER exhausted".
\<close>

datatype exitCondition = FullConvergence | MaxIterExhausted

text \<open>
  Modelled from the spec: the convergence test of \<open>levelPops\<close>, whose body is not part
  of the header. Section 4.4: "a vertex is marked converged after \<open>goal\<close> consecutive
  such passes"; section 4.5, step c: "If every vertex has met its convergence counter,
  terminate".
\<close>

definition allConverged :: "grid list \<Rightarrow> bool" where
  "allConverged g = list_all (\<lambda>v. int goal \<le> sint (conv v)) g"

text \<open>
  Modelled from the spec: one pass of \<open>levelPops\<close> (body missing). Section 4.5, step a:
  "For every non-sink vertex in parallel, run the photon engine then the solver";
  section 5: a pass reads the populations of the previous pass and the new ones are
  swapped in at the pass barrier. \<open>solveVertex\<close> stands for \<open>photon\<close> followed by
  \<open>stateq\<close> on one vertex, both only declared in the header: it is given the pass
  number, the grid as the previous pass left it, and the vertex.
\<close>

definition solverPass ::
  "(nat \<Rightarrow> grid list \<Rightarrow> grid \<Rightarrow> grid) \<Rightarrow> nat \<Rightarrow> grid list \<Rightarrow> grid list" where
  "solverPass solveVertex nItersDone g =
     map (\<lambda>v. if sink v \<noteq> 0 then v else solveVertex nItersDone g v) g"

text \<open>
  Modelled from the spec: the loop of \<open>levelPops\<close> (body missing). Section 4.5, step 2:
  "For up to MAXITER iterations": run a pass, compute statistics (they decide nothing
  and are left out), and terminate if every vertex has met its convergence counter.
  The result is the number of passes run, the grid, and the exit taken. A fatal error
  ends the whole program (section 7) and is not an exit of this loop.
\<close>

function levelPops_loop ::
  "(nat \<Rightarrow> grid list \<Rightarrow> grid \<Rightarrow> grid) \<Rightarrow> nat \<Rightarrow> grid list
     \<Rightarrow> nat \<times> grid list \<times> exitCondition"
where
  "levelPops_loop solveVertex nItersDone g =
     (if MAXITER \<le> nItersDone then (nItersDone, g, MaxIterExhausted)
      else let g' = solverPass solveVertex nItersDone g
           in if allConverged g' then (Suc nItersDone, g', FullConvergence)
              else levelPops_loop solveVertex (Suc nItersDone) g')"
  by pat_completeness auto
termination
  by (relation "measure (\<lambda>(_, nItersDone, _). MAXITER - nItersDone)") auto

text \<open>
  Modelled from the spec: \<open>levelPops\<close> itself (declared in lime.h, body missing) is
  the loop entered with no pass done. The initial populations (section 4.5, step 1) are
  those of the grid it is given.
\<close>

definition levelPops ::
  "(nat \<Rightarrow> grid list \<Rightarrow> grid \<Rightarrow> grid) \<Rightarrow> grid list \<Rightarrow> nat \<times> grid list \<times> exitCondition" where
  "levelPops solveVertex g = levelPops_loop solveVertex 0 g"

declare levelPops_loop.simps [simp del]

section \<open>Values of the masks\<close>

lemmas DS_bit_defs =
  DS_bit_x_def DS_bit_neighbours_def DS_bit_velocity_def DS_bit_density_def
  DS_bit_abundance_def DS_bit_turb_doppler_def DS_bit_temperatures_def
  DS_bit_ACOEFF_def DS_bit_populations_def

lemma DS_mask_x_val: "DS_mask_x = 1"
  by (simp add: DS_mask_x_def DS_bit_defs)

lemma DS_mask_neighbours_val: "DS_mask_neighbours = 3"
  by (simp add: DS_mask_neighbours_def DS_mask_x_val DS_bit_defs)

lemma DS_mask_velocity_val: "DS_mask_velocity = 5"
  by (simp add: DS_mask_velocity_def DS_mask_x_val DS_bit_defs)

lemma DS_mask_density_val: "DS_mask_density = 9"
  by (simp add: DS_mask_density_def DS_mask_x_val DS_bit_defs)

lemma DS_mask_abundance_val: "DS_mask_abundance = 17"
  by (simp add: DS_mask_abundance_def DS_mask_x_val DS_bit_defs)

lemma DS_mask_turb_doppler_val: "DS_mask_turb_doppler = 33"
  by (simp add: DS_mask_turb_doppler_def DS_mask_x_val DS_bit_defs)

lemma DS_mask_temperatures_val: "DS_mask_temperatures = 65"
  by (simp add: DS_mask_temperatures_def DS_mask_x_val DS_bit_defs)

lemma DS_mask_ACOEFF_val: "DS_mask_ACOEFF = 135"
  by (simp add: DS_mask_ACOEFF_def DS_mask_neighbours_val DS_mask_velocity_val DS_bit_defs)

lemma DS_mask_1_val: "DS_mask_1 = 1"
  by (simp add: DS_mask_1_def DS_mask_x_val)

lemma DS_mask_2_val: "DS_mask_2 = 3"
  by (simp add: DS_mask_2_def DS_mask_neighbours_val)

lemma DS_mask_3_val: "DS_mask_3 = 255"
  by (simp add: DS_mask_3_def DS_mask_2_val DS_mask_density_val DS_mask_abundance_val
      DS_mask_turb_doppler_val DS_mask_temperatures_val DS_mask_ACOEFF_val)

lemma DS_mask_4_val: "DS_mask_4 = 511"
  by (simp add: DS_mask_4_def DS_mask_populations_def DS_mask_3_val DS_bit_defs)

lemmas DS_mask_vals =
  DS_mask_x_val DS_mask_neighbours_val DS_mask_velocity_val DS_mask_density_val
  DS_mask_abundance_val DS_mask_turb_doppler_val DS_mask_temperatures_val
  DS_mask_ACOEFF_val DS_mask_1_val DS_mask_2_val DS_mask_3_val DS_mask_4_val

text \<open>
  Stage 3 holds more than the fields it is named after: through \<open>DS_mask_ACOEFF\<close> it
  also carries the velocity bit, so it is all of bits 0 to 7.
\<close>

lemma DS_mask_3_bits: "bit DS_mask_3 n \<longleftrightarrow> n < 8"
proof -
  have "DS_mask_3 = mask 8"
    by (simp add: DS_mask_3_val mask_numeral)
  moreover have "bit (mask 8 :: c_int) n \<longleftrightarrow> n < 8"
    by (auto simp add: bit_mask_iff possible_bit_word)
  ultimately show ?thesis
    by simp
qed

section \<open>Inclusion of masks\<close>

text \<open>
  \<open>a AND b = a\<close> says that every bit of \<open>a\<close> is a bit of \<open>b\<close>. Both readings
  of it are used below: bit by bit, and through \<open>allBitsSet\<close>.
\<close>

lemma submask_bit:
  fixes a b :: c_int
  assumes "a AND b = a" and "bit a n"
  shows "bit b n"
proof -
  from assms have "bit (a AND b) n" by simp
  then show ?thesis by (simp add: bit_and_iff)
qed

lemma submask_allBitsSet:
  fixes a b :: c_int
  assumes sub: "a AND b = a" and all: "allBitsSet flags b"
  shows "allBitsSet flags a"
proof -
  from all have fb: "flags AND b = b" by (simp add: allBitsSet_def)
  have "flags AND a = flags AND (a AND b)" using sub by simp
  also have "\<dots> = a AND (flags AND b)" by (simp add: ac_simps)
  also have "\<dots> = a" using fb sub by simp
  finally show ?thesis by (simp add: allBitsSet_def)
qed

lemma DS_mask_stage_cases:
  assumes "1 \<le> k" and "k \<le> 4"
  obtains "k = 1" | "k = 2" | "k = 3" | "k = (4::nat)"
  using assms by arith

lemma DS_mask_stage_submask:
  assumes "1 \<le> j" and "j \<le> k" and "k \<le> 4"
  shows "\<exists>a b. DS_mask_stage j = Some a \<and> DS_mask_stage k = Some b \<and> a AND b = a"
proof -
  from assms have j: "1 \<le> j" "j \<le> 4" and k: "1 \<le> k" "k \<le> 4" by simp_all
  from j show ?thesis
  proof (cases j rule: DS_mask_stage_cases)
    case 1
    from k show ?thesis
      by (cases k rule: DS_mask_stage_cases) (simp_all add: 1 DS_mask_stage_def DS_mask_vals)
  next
    case 2
    with assms have "k = 2 \<or> k = 3 \<or> k = 4" by arith
    then show ?thesis
      by (auto simp add: 2 DS_mask_stage_def DS_mask_vals)
  next
    case 3
    with assms have "k = 3 \<or> k = 4" by arith
    then show ?thesis
      by (auto simp add: 3 DS_mask_stage_def DS_mask_vals)
  next
    case 4
    with assms have "k = 4" by arith
    then show ?thesis
      by (simp add: 4 DS_mask_stage_def)
  qed
qed

lemma allBitsSet_bit:
  assumes "allBitsSet flags m" and "bit m n"
  shows "bit flags n"
proof -
  from assms(1) have "m AND flags = m"
    by (simp add: allBitsSet_def ac_simps)
  from this assms(2) show ?thesis
    by (rule submask_bit)
qed

text \<open>
  The nine bit locations are the numbers 0 to 8, each used once.
\<close>

lemma DS_bits_distinct: "distinct DS_bits \<and> length DS_bits = 9 \<and> set DS_bits = {0..<9}"
proof -
  have "DS_bits = [0, 1, 2, 3, 4, 5, 6, 7, 8]"
    by (simp add: DS_bits_def DS_bit_defs)
  moreover have "[0, 1, 2, 3, 4, 5, 6, 7, 8] = [0..<9::nat]"
    by (simp add: upt_rec)
  ultimately have eq: "DS_bits = [0..<9]" by simp
  have "distinct [0..<9::nat]" by (rule distinct_upt)
  moreover have "length [0..<9::nat] = 9" by (simp only: length_upt diff_zero)
  moreover have "set [0..<9::nat] = {0..<9}" by (rule set_upt)
  ultimately show ?thesis unfolding eq by blast
qed

section \<open>The stage masks are monotone\<close>

text \<open>
  Claim C2. The four data-stage masks are monotone: for stages \<open>1 \<le> j \<le> k \<le> 4\<close>,
  every bit set in the mask of stage \<open>j\<close> is set in the mask of stage \<open>k\<close>, so flags
  with all bits of the mask of stage \<open>k\<close> have all bits of the mask of stage \<open>j\<close>.
  Stage 1 is the positions bit; stage 2 adds the neighbours bit; stage 3 adds the bits
  of density, abundance, turbulent Doppler width, temperatures and velocity
  coefficients; stage 4 adds the populations bit.
\<close>

theorem DS_stage_masks_monotone:
  "(1 \<le> j \<and> j \<le> k \<and> k \<le> NUM_GRID_STAGES \<longrightarrow>
      (\<exists>mj mk. DS_mask_stage j = Some mj \<and> DS_mask_stage k = Some mk
         \<and> (\<forall>n. bit mj n \<longrightarrow> bit mk n)
         \<and> (\<forall>flags. allBitsSet flags mk \<longrightarrow> allBitsSet flags mj)))
   \<and> DS_mask_1 = push_bit DS_bit_x 1
   \<and> DS_mask_2 = DS_mask_1 OR push_bit DS_bit_neighbours 1
   \<and> \<not> bit DS_mask_1 DS_bit_neighbours
   \<and> list_all (\<lambda>b. bit DS_mask_3 b \<and> \<not> bit DS_mask_2 b)
        [DS_bit_density, DS_bit_abundance, DS_bit_turb_doppler, DS_bit_temperatures,
         DS_bit_ACOEFF]
   \<and> DS_mask_4 = DS_mask_3 OR push_bit DS_bit_populations 1
   \<and> \<not> bit DS_mask_3 DS_bit_populations"
proof -
  have mono: "\<exists>mj mk. DS_mask_stage j = Some mj \<and> DS_mask_stage k = Some mk
         \<and> (\<forall>n. bit mj n \<longrightarrow> bit mk n)
         \<and> (\<forall>flags. allBitsSet flags mk \<longrightarrow> allBitsSet flags mj)"
    if "1 \<le> j \<and> j \<le> k \<and> k \<le> NUM_GRID_STAGES"
  proof -
    from that have "1 \<le> j" "j \<le> k" "k \<le> 4"
      by (simp_all add: NUM_GRID_STAGES_def)
    then obtain a b where a: "DS_mask_stage j = Some a" and b: "DS_mask_stage k = Some b"
      and sub: "a AND b = a"
      using DS_mask_stage_submask by blast
    from sub have "\<forall>n. bit a n \<longrightarrow> bit b n"
      by (blast intro: submask_bit)
    moreover from sub have "\<forall>flags. allBitsSet flags b \<longrightarrow> allBitsSet flags a"
      by (blast intro: submask_allBitsSet)
    ultimately show ?thesis using a b by blast
  qed
  have s1: "DS_mask_1 = push_bit DS_bit_x 1"
    by (simp add: DS_mask_1_def DS_mask_x_def)
  have s2: "DS_mask_2 = DS_mask_1 OR push_bit DS_bit_neighbours 1"
    by (simp add: DS_mask_2_def DS_mask_neighbours_def DS_mask_1_def ac_simps)
  have n1: "\<not> bit DS_mask_1 DS_bit_neighbours"
    by (simp add: DS_mask_1_val DS_bit_defs)
  have s3: "list_all (\<lambda>b. bit DS_mask_3 b \<and> \<not> bit DS_mask_2 b)
        [DS_bit_density, DS_bit_abundance, DS_bit_turb_doppler, DS_bit_temperatures,
         DS_bit_ACOEFF]"
    by (simp add: DS_mask_3_bits DS_mask_2_val DS_bit_defs)
  have s4: "DS_mask_4 = DS_mask_3 OR push_bit DS_bit_populations 1"
    by (simp add: DS_mask_4_def DS_mask_populations_def ac_simps)
  have n3: "\<not> bit DS_mask_3 DS_bit_populations"
    by (simp add: DS_mask_3_bits DS_bit_defs)
  from mono s1 s2 n1 s3 s4 n3 show ?thesis by blast
qed

theorem DS_stage_masks_monotone_witness:
  "(1::nat) \<le> 2 \<and> (2::nat) \<le> 3 \<and> 3 \<le> NUM_GRID_STAGES
   \<and> DS_mask_stage 2 = Some 3 \<and> DS_mask_stage 3 = Some 255
   \<and> bit (3 :: c_int) 1 \<and> bit (255 :: c_int) 1
   \<and> allBitsSet 511 255 \<and> allBitsSet 511 3"
proof -
  have h: "(1::nat) \<le> 2 \<and> (2::nat) \<le> 3 \<and> 3 \<le> NUM_GRID_STAGES"
    by (simp add: NUM_GRID_STAGES_def)
  have st: "DS_mask_stage 2 = Some 3" "DS_mask_stage 3 = Some 255"
    by (simp_all add: DS_mask_stage_def DS_mask_vals)
  from DS_stage_masks_monotone [of 2 3] h obtain mj mk
    where "DS_mask_stage 2 = Some mj" and "DS_mask_stage 3 = Some mk"
      and "\<forall>n. bit mj n \<longrightarrow> bit mk n"
      and "\<forall>flags. allBitsSet flags mk \<longrightarrow> allBitsSet flags mj"
    by blast
  with st have inc: "\<forall>n. bit (3 :: c_int) n \<longrightarrow> bit (255 :: c_int) n"
    and gate: "\<forall>flags. allBitsSet flags 255 \<longrightarrow> allBitsSet flags 3"
    by simp_all
  have b3: "bit (3 :: c_int) 1" by simp
  with inc have b255: "bit (255 :: c_int) 1" by blast
  have a255: "allBitsSet 511 255" by (simp add: allBitsSet_def)
  with gate have a3: "allBitsSet 511 3" by blast
  from h st b3 b255 a255 a3 show ?thesis by blast
qed

section \<open>Every compound mask carries the positions bit\<close>

text \<open>
  Claim C10. Each of the masks of neighbours, velocity, density, abundance, turbulent
  Doppler width, temperatures and velocity coefficients includes \<open>DS_mask_x\<close>, which is
  bit 0. \<open>DS_mask_ACOEFF\<close> also includes \<open>DS_mask_neighbours\<close> and
  \<open>DS_mask_velocity\<close>. So flags that have all bits of \<open>DS_mask_ACOEFF\<close> also have
  all bits of the masks of positions, neighbours and velocity.
\<close>

theorem DS_masks_include_positions:
  "DS_mask_x = push_bit 0 1
   \<and> allBitsSet DS_mask_neighbours DS_mask_x
   \<and> allBitsSet DS_mask_velocity DS_mask_x
   \<and> allBitsSet DS_mask_density DS_mask_x
   \<and> allBitsSet DS_mask_abundance DS_mask_x
   \<and> allBitsSet DS_mask_turb_doppler DS_mask_x
   \<and> allBitsSet DS_mask_temperatures DS_mask_x
   \<and> allBitsSet DS_mask_ACOEFF DS_mask_x
   \<and> allBitsSet DS_mask_ACOEFF DS_mask_neighbours
   \<and> allBitsSet DS_mask_ACOEFF DS_mask_velocity
   \<and> (allBitsSet flags DS_mask_ACOEFF \<longrightarrow>
        allBitsSet flags DS_mask_x \<and> allBitsSet flags DS_mask_neighbours
        \<and> allBitsSet flags DS_mask_velocity
        \<and> bit flags DS_bit_x \<and> bit flags DS_bit_neighbours \<and> bit flags DS_bit_velocity
        \<and> bit flags DS_bit_ACOEFF)"
proof -
  have x: "DS_mask_x = push_bit 0 1"
    by (simp add: DS_mask_x_def DS_bit_x_def)
  have incl: "allBitsSet DS_mask_neighbours DS_mask_x" "allBitsSet DS_mask_velocity DS_mask_x"
    "allBitsSet DS_mask_density DS_mask_x" "allBitsSet DS_mask_abundance DS_mask_x"
    "allBitsSet DS_mask_turb_doppler DS_mask_x" "allBitsSet DS_mask_temperatures DS_mask_x"
    "allBitsSet DS_mask_ACOEFF DS_mask_x"
    by (simp_all add: allBitsSet_def DS_mask_vals)
  have acoeff: "allBitsSet DS_mask_ACOEFF DS_mask_neighbours"
    "allBitsSet DS_mask_ACOEFF DS_mask_velocity"
    by (simp_all add: allBitsSet_def DS_mask_vals)
  have gate: "allBitsSet flags DS_mask_x \<and> allBitsSet flags DS_mask_neighbours
        \<and> allBitsSet flags DS_mask_velocity
        \<and> bit flags DS_bit_x \<and> bit flags DS_bit_neighbours \<and> bit flags DS_bit_velocity
        \<and> bit flags DS_bit_ACOEFF"
    if all: "allBitsSet flags DS_mask_ACOEFF"
  proof -
    have "DS_mask_x AND DS_mask_ACOEFF = DS_mask_x"
      and "DS_mask_neighbours AND DS_mask_ACOEFF = DS_mask_neighbours"
      and "DS_mask_velocity AND DS_mask_ACOEFF = DS_mask_velocity"
      by (simp_all add: DS_mask_vals)
    then have masks: "allBitsSet flags DS_mask_x" "allBitsSet flags DS_mask_neighbours"
      "allBitsSet flags DS_mask_velocity"
      using all by (blast intro: submask_allBitsSet)+
    have "bit DS_mask_ACOEFF DS_bit_x" "bit DS_mask_ACOEFF DS_bit_neighbours"
      "bit DS_mask_ACOEFF DS_bit_velocity" "bit DS_mask_ACOEFF DS_bit_ACOEFF"
      by (simp_all add: DS_mask_ACOEFF_val DS_bit_defs)
    then have "bit flags DS_bit_x" "bit flags DS_bit_neighbours"
      "bit flags DS_bit_velocity" "bit flags DS_bit_ACOEFF"
      using all by (blast intro: allBitsSet_bit)+
    with masks show ?thesis by blast
  qed
  from x incl acoeff gate show ?thesis by blast
qed

theorem DS_masks_include_positions_witness:
  "allBitsSet 255 DS_mask_ACOEFF
   \<and> allBitsSet 255 DS_mask_x \<and> allBitsSet 255 DS_mask_neighbours
   \<and> allBitsSet 255 DS_mask_velocity
   \<and> bit (255 :: c_int) DS_bit_x \<and> bit (255 :: c_int) DS_bit_neighbours
   \<and> bit (255 :: c_int) DS_bit_velocity \<and> bit (255 :: c_int) DS_bit_ACOEFF"
proof -
  have h: "allBitsSet 255 DS_mask_ACOEFF"
    by (simp add: allBitsSet_def DS_mask_ACOEFF_val)
  with DS_masks_include_positions [of 255] show ?thesis by blast
qed

text \<open>
  The conclusion needs the whole of \<open>DS_mask_ACOEFF\<close> in the flags. Bit 7 by itself
  says nothing about bits 0 to 2.
\<close>

lemma DS_bit_ACOEFF_alone:
  "bit (128 :: c_int) DS_bit_ACOEFF \<and> \<not> bit (128 :: c_int) DS_bit_x
   \<and> \<not> allBitsSet 128 DS_mask_ACOEFF"
  by (simp add: DS_bit_defs allBitsSet_def DS_mask_ACOEFF_val)

section \<open>Populations after one solver step\<close>













text \<open>
  A clipped sum above one does not by itself break the floor: it depends on the
  component.
\<close>

lemma stateq_renorm_floor_above_one:
  "stateq_renorm [6 / 10, 6 / 10] = [1 / 2, 1 / 2]
   \<and> 1 < sum_list (map clipPop [6 / 10, 6 / 10]) \<and> minpop \<le> 1 / 2"
  by (simp add: stateq_renorm_def clipPop_def minpop_def)

section \<open>The iteration controller stops\<close>

lemma fold_upt_step:
  assumes "n < n'"
  shows "fold f [n..<n'] g = fold f [Suc n..<n'] (f n g)"
  using assms by (simp add: upt_conv_Cons)

text \<open>
  What the loop returns when entered with \<open>n\<close> passes done: the passes \<open>n\<close> to
  \<open>n' - 1\<close> have been run in order, none of the earlier ones left the grid
  converged, and the exit names the reason.
\<close>

lemma levelPops_loop_exit:
  assumes "levelPops_loop solveVertex n g = (n', g', e)" and "n \<le> MAXITER"
  shows "n \<le> n' \<and> n' \<le> MAXITER
     \<and> g' = fold (solverPass solveVertex) [n..<n'] g
     \<and> (e = FullConvergence \<longrightarrow> n < n' \<and> allConverged g')
     \<and> (e = MaxIterExhausted \<longrightarrow> n' = MAXITER \<and> (n < n' \<longrightarrow> \<not> allConverged g'))
     \<and> (\<forall>m. n < m \<and> m < n'
           \<longrightarrow> \<not> allConverged (fold (solverPass solveVertex) [n..<m] g))"
  using assms
proof (induction solveVertex n g rule: levelPops_loop.induct)
  case (1 solveVertex nItersDone g)
  let ?g1 = "solverPass solveVertex nItersDone g"
  show ?case
  proof (cases "MAXITER \<le> nItersDone")
    case True
    with "1.prems" have "n' = nItersDone" "g' = g" "e = MaxIterExhausted"
      "nItersDone = MAXITER"
      by (simp_all add: levelPops_loop.simps [of solveVertex nItersDone g])
    then show ?thesis by auto
  next
    case False
    note lt = this
    show ?thesis
    proof (cases "allConverged ?g1")
      case True
      with lt "1.prems" have "n' = Suc nItersDone" "g' = ?g1" "e = FullConvergence"
        by (simp_all add: levelPops_loop.simps [of solveVertex nItersDone g] Let_def)
      with lt True show ?thesis by auto
    next
      case False
      with lt "1.prems" have rec:
        "levelPops_loop solveVertex (Suc nItersDone) ?g1 = (n', g', e)"
        by (simp add: levelPops_loop.simps [of solveVertex nItersDone g] Let_def)
      from lt have "Suc nItersDone \<le> MAXITER" by simp
      note ih = "1.IH" [OF lt refl False rec this]
      from ih have le: "Suc nItersDone \<le> n'" and hi: "n' \<le> MAXITER"
        and g': "g' = fold (solverPass solveVertex) [Suc nItersDone..<n'] ?g1"
        and conv: "e = FullConvergence \<longrightarrow> allConverged g'"
        and exh: "e = MaxIterExhausted
            \<longrightarrow> n' = MAXITER \<and> (Suc nItersDone < n' \<longrightarrow> \<not> allConverged g')"
        and early: "\<forall>m. Suc nItersDone < m \<and> m < n'
            \<longrightarrow> \<not> allConverged (fold (solverPass solveVertex) [Suc nItersDone..<m] ?g1)"
        by blast+
      from le have lt': "nItersDone < n'" by simp
      have fold_eq: "fold (solverPass solveVertex) [nItersDone..<m] g
          = fold (solverPass solveVertex) [Suc nItersDone..<m] ?g1" if "nItersDone < m" for m
        using that by (rule fold_upt_step)
      have g'': "g' = fold (solverPass solveVertex) [nItersDone..<n'] g"
        using g' fold_eq [OF lt'] by simp
      have last: "\<not> allConverged g'" if "e = MaxIterExhausted"
      proof (cases "Suc nItersDone < n'")
        case True
        with exh that show ?thesis by simp
      next
        case False
        with le have "n' = Suc nItersDone" by simp
        with g' have "g' = ?g1" by simp
        with \<open>\<not> allConverged ?g1\<close> show ?thesis by simp
      qed
      have early': "\<not> allConverged (fold (solverPass solveVertex) [nItersDone..<m] g)"
        if m: "nItersDone < m \<and> m < n'" for m
      proof (cases "m = Suc nItersDone")
        case True
        with \<open>\<not> allConverged ?g1\<close> show ?thesis by simp
      next
        case False
        with m have "Suc nItersDone < m \<and> m < n'" by simp
        with early
        have "\<not> allConverged (fold (solverPass solveVertex) [Suc nItersDone..<m] ?g1)"
          by blast
        with m fold_eq [of m] show ?thesis by simp
      qed
      from lt' hi g'' conv exh last early' show ?thesis by auto
    qed
  qed
qed

text \<open>
  Claim C5. The iteration controller always terminates. For every solver of a vertex
  and every grid, \<open>levelPops\<close> returns after \<open>n\<close> passes with \<open>1 \<le> n \<le> MAXITER\<close>
  and \<open>MAXITER = 50\<close>. It has two exits and no other: full convergence, taken exactly
  when the grid it returns has every vertex at its convergence counter, and
  \<open>MAXITER\<close> exhausted, taken exactly when \<open>n = MAXITER\<close> and the grid is not
  converged. No pass before the last left the grid converged, so the loop stops for
  no other reason, and the model has no input that could cancel it.
\<close>

theorem levelPops_terminates:
  "\<exists>n g' e. levelPops solveVertex g = (n, g', e)
     \<and> MAXITER = 50 \<and> 1 \<le> n \<and> n \<le> MAXITER
     \<and> g' = fold (solverPass solveVertex) [0..<n] g
     \<and> (e = FullConvergence \<longleftrightarrow> allConverged g')
     \<and> (e = MaxIterExhausted \<longleftrightarrow> n = MAXITER \<and> \<not> allConverged g')
     \<and> (\<forall>m. 0 < m \<and> m < n
           \<longrightarrow> \<not> allConverged (fold (solverPass solveVertex) [0..<m] g))"
proof -
  obtain n g' e where res: "levelPops_loop solveVertex 0 g = (n, g', e)"
    by (cases "levelPops_loop solveVertex 0 g") auto
  have "0 \<le> MAXITER" by simp
  note ex = levelPops_loop_exit [OF res this]
  from ex have hi: "n \<le> MAXITER"
    and g': "g' = fold (solverPass solveVertex) [0..<n] g"
    and conv: "e = FullConvergence \<longrightarrow> 0 < n \<and> allConverged g'"
    and exh: "e = MaxIterExhausted \<longrightarrow> n = MAXITER \<and> (0 < n \<longrightarrow> \<not> allConverged g')"
    and early: "\<forall>m. 0 < m \<and> m < n
           \<longrightarrow> \<not> allConverged (fold (solverPass solveVertex) [0..<m] g)"
    by blast+
  have m50: "MAXITER = 50" by (simp add: MAXITER_def)
  have cases_e: "e = FullConvergence \<or> e = MaxIterExhausted"
    by (cases e) simp_all
  from conv exh cases_e m50 have pos: "1 \<le> n" by auto
  from exh pos have exh': "e = MaxIterExhausted \<longrightarrow> n = MAXITER \<and> \<not> allConverged g'"
    by simp
  from conv exh' cases_e have c_iff: "e = FullConvergence \<longleftrightarrow> allConverged g'"
    by auto
  from conv exh' cases_e
  have e_iff: "e = MaxIterExhausted \<longleftrightarrow> n = MAXITER \<and> \<not> allConverged g'"
    by auto
  from res have "levelPops solveVertex g = (n, g', e)"
    by (simp add: levelPops_def)
  with m50 pos hi g' c_iff e_iff early show ?thesis by blast
qed

theorem levelPops_terminates_witness:
  "levelPops (\<lambda>n g v. v\<lparr>conv := 50\<rparr>) [\<lparr>sink = 0, nphot = 9, conv = 0, mol = []\<rparr>]
     = (1, [\<lparr>sink = 0, nphot = 9, conv = 50, mol = []\<rparr>], FullConvergence)
   \<and> allConverged [\<lparr>sink = 0, nphot = 9, conv = 50, mol = []\<rparr>]
   \<and> levelPops (\<lambda>n g v. v) [\<lparr>sink = 0, nphot = 9, conv = 0, mol = []\<rparr>]
     = (50, [\<lparr>sink = 0, nphot = 9, conv = 0, mol = []\<rparr>], MaxIterExhausted)
   \<and> \<not> allConverged [\<lparr>sink = 0, nphot = 9, conv = 0, mol = []\<rparr>]"
proof -
  let ?v0 = "\<lparr>sink = 0, nphot = 9, conv = 0, mol = []\<rparr>"
  let ?v1 = "\<lparr>sink = 0, nphot = 9, conv = 50, mol = []\<rparr>"
  let ?f = "\<lambda>(n::nat) (g::grid list) (v::grid). v\<lparr>conv := 50\<rparr>"
  let ?i = "\<lambda>(n::nat) (g::grid list) (v::grid). v"
  have run: "levelPops ?f [?v0] = (1, [?v1], FullConvergence)"
    by (simp add: levelPops_def levelPops_loop.simps [of ?f 0] MAXITER_def solverPass_def
        allConverged_def goal_def)
  from levelPops_terminates [of ?f "[?v0]"] run have c1: "allConverged [?v1]"
    by auto
  have nc: "\<not> allConverged [?v0]"
    by (simp add: allConverged_def goal_def)
  have idp: "fold (solverPass ?i) xs g = g" for xs and g :: "grid list"
    by (induction xs) (simp_all add: solverPass_def)
  from levelPops_terminates [of ?i "[?v0]"] obtain n g' e
    where r: "levelPops ?i [?v0] = (n, g', e)"
      and g': "g' = fold (solverPass ?i) [0..<n] [?v0]"
      and e: "e = MaxIterExhausted \<longleftrightarrow> n = MAXITER \<and> \<not> allConverged g'"
      and c: "e = FullConvergence \<longleftrightarrow> allConverged g'"
    by blast
  from g' have "g' = [?v0]" by (simp only: idp)
  with nc c e have "n = MAXITER" "e = MaxIterExhausted"
    by (cases e; simp)+
  with r \<open>g' = [?v0]\<close> have run2: "levelPops ?i [?v0] = (50, [?v0], MaxIterExhausted)"
    by (simp add: MAXITER_def)
  from run c1 run2 nc show ?thesis by blast
qed

section \<open>Four snapshot stages\<close>

lemma stage_list_length: "length (stage_list a) = NUM_GRID_STAGES"
  using stage_list [of a] by simp

lemma stage_get_range: "stage_get a i \<noteq> None \<longleftrightarrow> i < NUM_GRID_STAGES"
  by (simp add: stage_get.rep_eq)

lemma stage_set_get:
  assumes "i < NUM_GRID_STAGES"
  shows "stage_get (stage_set a i v) i = Some v"
  using assms by (simp add: stage_get.rep_eq stage_set.rep_eq stage_list_length)

lemma stage_set_other:
  assumes "j \<noteq> i"
  shows "stage_get (stage_set a i v) j = stage_get a j"
  using assms by (simp add: stage_get.rep_eq stage_set.rep_eq)

text \<open>
  Claim C9. There are exactly four grid snapshot stages. \<open>NUM_GRID_STAGES\<close> is 4; in
  every configuration record \<open>writeGridAtStage\<close> holds exactly that many flags and
  \<open>gridOutFiles\<close> exactly that many file names, an index being inside either array
  exactly when it is below \<open>NUM_GRID_STAGES\<close>; the stage masks exist for the stages 1
  to \<open>NUM_GRID_STAGES\<close> and no other. A snapshot may be requested after any of the
  four stages: for each index below \<open>NUM_GRID_STAGES\<close> the flag can be set, it then
  reads as set, and the flags of the other stages stay as they were.
\<close>

theorem inputPars_four_stages:
  "NUM_GRID_STAGES = 4
   \<and> length (stage_list (writeGridAtStage par)) = NUM_GRID_STAGES
   \<and> length (stage_list (gridOutFiles par)) = NUM_GRID_STAGES
   \<and> (stage_get (writeGridAtStage par) i \<noteq> None \<longleftrightarrow> i < NUM_GRID_STAGES)
   \<and> (stage_get (gridOutFiles par) i \<noteq> None \<longleftrightarrow> i < NUM_GRID_STAGES)
   \<and> (DS_mask_stage k \<noteq> None \<longleftrightarrow> 1 \<le> k \<and> k \<le> NUM_GRID_STAGES)
   \<and> (i < NUM_GRID_STAGES \<longrightarrow>
        stage_get (writeGridAtStage
          (par\<lparr>writeGridAtStage := stage_set (writeGridAtStage par) i True\<rparr>)) i = Some True
        \<and> (\<forall>j. j \<noteq> i \<longrightarrow> stage_get (writeGridAtStage
          (par\<lparr>writeGridAtStage := stage_set (writeGridAtStage par) i True\<rparr>)) j
            = stage_get (writeGridAtStage par) j))"
proof -
  have n4: "NUM_GRID_STAGES = 4" by (simp add: NUM_GRID_STAGES_def)
  have masks: "DS_mask_stage k \<noteq> None \<longleftrightarrow> 1 \<le> k \<and> k \<le> NUM_GRID_STAGES"
    by (auto simp add: DS_mask_stage_def NUM_GRID_STAGES_def)
  have req: "stage_get (writeGridAtStage
          (par\<lparr>writeGridAtStage := stage_set (writeGridAtStage par) i True\<rparr>)) i = Some True
        \<and> (\<forall>j. j \<noteq> i \<longrightarrow> stage_get (writeGridAtStage
          (par\<lparr>writeGridAtStage := stage_set (writeGridAtStage par) i True\<rparr>)) j
            = stage_get (writeGridAtStage par) j)" if "i < NUM_GRID_STAGES"
    using that by (simp add: stage_set_get stage_set_other)
  from n4 masks req show ?thesis
    by (simp only: stage_list_length stage_get_range simp_thms) blast
qed

theorem inputPars_four_stages_witness:
  "(2::nat) < NUM_GRID_STAGES
   \<and> stage_get (stage_fill False) 2 = Some False
   \<and> stage_get (writeGridAtStage
        (examplePars\<lparr>writeGridAtStage := stage_set (writeGridAtStage examplePars) 2 True\<rparr>)) 2
       = Some True
   \<and> stage_get (writeGridAtStage
        (examplePars\<lparr>writeGridAtStage := stage_set (writeGridAtStage examplePars) 2 True\<rparr>)) 3
       = Some False"
proof -
  have h: "(2::nat) < NUM_GRID_STAGES" by (simp add: NUM_GRID_STAGES_def)
  have old: "stage_get (stage_fill False) 2 = Some False"
    "stage_get (writeGridAtStage examplePars) 3 = Some False"
    by (simp_all add: examplePars_def stage_get.rep_eq stage_fill.rep_eq NUM_GRID_STAGES_def)
  note main = inputPars_four_stages [of examplePars 2]
  from main h have new: "stage_get (writeGridAtStage
        (examplePars\<lparr>writeGridAtStage := stage_set (writeGridAtStage examplePars) 2 True\<rparr>)) 2
       = Some True" by blast
  from main h have "\<forall>j. j \<noteq> 2 \<longrightarrow> stage_get (writeGridAtStage
        (examplePars\<lparr>writeGridAtStage := stage_set (writeGridAtStage examplePars) 2 True\<rparr>)) j
       = stage_get (writeGridAtStage examplePars) j" by blast
  then have "stage_get (writeGridAtStage
        (examplePars\<lparr>writeGridAtStage := stage_set (writeGridAtStage examplePars) 2 True\<rparr>)) 3
       = stage_get (writeGridAtStage examplePars) 3" by simp
  with old have other: "stage_get (writeGridAtStage
        (examplePars\<lparr>writeGridAtStage := stage_set (writeGridAtStage examplePars) 2 True\<rparr>)) 3
       = Some False" by simp
  from h old(1) new other show ?thesis by blast
qed

section \<open>Populations after every iteration\<close>










end
